theory Spec2Isabelle
  imports Main
begin

section \<open>The service interface stream of \<^verbatim>\<open>fsfw/serviceinterface/ServiceInterface.h\<close>\<close>

text \<open>
  The header declares one class:
  \<^verbatim>\<open>
  class ServiceInterfaceStream {
   public:
    explicit ServiceInterfaceStream(const char* name) : name(name) {}

   private:
    const char* name;
  };
  \<close>
  It has a single data member, a pointer to constant characters, and a single declared
  member function, the constructor. The constructor's member initialiser copies the
  pointer argument into the field; its body is empty.
\<close>

subsection \<open>Data\<close>

text \<open>
  A value of type \<^verbatim>\<open>const char*\<close>: the null pointer or the address of a character.
  The class never dereferences the pointer, so the model needs no more of it than its
  identity.
\<close>

datatype char_ptr = nullptr | Addr nat

text \<open>The class, with its one field.\<close>

record ServiceInterfaceStream =
  name :: char_ptr

subsection \<open>The constructor\<close>

text \<open>
  Construction is modelled with explicit state passing. The second argument stands for
  everything in the process outside the object under construction (character storage,
  and whatever global objects the embedding program holds); the function returns the
  new object together with that state. The member initialiser \<^verbatim>\<open>name(name)\<close> sets the
  field to the argument, and the empty body \<^verbatim>\<open>{}\<close> leaves everything else as it was.
  There is no test on the argument, no \<^verbatim>\<open>throw\<close> and no early return in the source, so
  the model has a single unconditional equation.
\<close>

definition ServiceInterfaceStream_ctor ::
    "char_ptr \<Rightarrow> 'w \<Rightarrow> ServiceInterfaceStream \<times> 'w" where
  "ServiceInterfaceStream_ctor p w = (\<lparr>name = p\<rparr>, w)"

section \<open>Properties of construction\<close>

text \<open>
  Claim C2. Constructing a stream with subsystem name \<open>n\<close> gives a stream whose bound
  name is \<open>n\<close>, and construction touches nothing outside the new object: the state of
  the rest of the process, and with it the state of any sink that process holds, comes
  back exactly as it went in.
\<close>

theorem ctor_binds_name_and_keeps_state:
  "name (fst (ServiceInterfaceStream_ctor n w)) = n
   \<and> snd (ServiceInterfaceStream_ctor n w) = w"
  by (simp add: ServiceInterfaceStream_ctor_def)

text \<open>
  Claim C9. The constructor stores the pointer it is given, not a copy of the string
  behind it: the field of the new object is the argument itself, whether that is an
  address or the null pointer, so two streams have the same field exactly when they
  were constructed from the same pointer, whatever the state of the rest of the
  process was at either construction.
\<close>

theorem ctor_stores_pointer_itself:
  "name (fst (ServiceInterfaceStream_ctor p w)) = p
   \<and> name (fst (ServiceInterfaceStream_ctor (Addr a) w)) = Addr a
   \<and> (fst (ServiceInterfaceStream_ctor p w) = fst (ServiceInterfaceStream_ctor q w')
        \<longleftrightarrow> p = q)"
  by (simp add: ServiceInterfaceStream_ctor_def)

text \<open>
  Claim C10. The constructor is total and validates nothing: for every argument there
  is a constructed object, and the null pointer is accepted like any other value and
  stored as it is.
\<close>

theorem ctor_total_no_validation:
  "(\<exists>s. ServiceInterfaceStream_ctor p w = (s, w) \<and> name s = p)
   \<and> ServiceInterfaceStream_ctor nullptr w = (\<lparr>name = nullptr\<rparr>, w)"
  by (simp add: ServiceInterfaceStream_ctor_def)

end
